theory Spec2Isabelle
  imports Main "HOL-Library.Sublist"
begin

section \<open>Python values that main.py handles\<close>

text \<open>
  Exceptions. The clause \<^verbatim>\<open>except Exception as e\<close> catches the instances of class
  \<^verbatim>\<open>Exception\<close> (FileNotFoundError, JSONDecodeError, ValidationError, ...), each carrying
  its \<^verbatim>\<open>str(e)\<close>; \<^verbatim>\<open>KeyboardInterrupt\<close> and \<^verbatim>\<open>SystemExit\<close> derive from
  \<^verbatim>\<open>BaseException\<close> only and pass through such a clause.
\<close>

datatype py_exception = Exception string | KeyboardInterrupt | SystemExit

datatype log_level = DEBUG | INFO | WARNING

datatype role = USER | ASSISTANT

type_synonym chat_message = "role \<times> string"

text \<open>\<^verbatim>\<open>SimpleChatStore\<close>: a dict from a key to the ordered list of its messages.\<close>

type_synonym SimpleChatStore = "string \<rightharpoonup> chat_message list"

type_synonym addr = nat

text \<open>\<^verbatim>\<open>ChatMemoryBuffer\<close>: a reference to a chat store and the key it reads and writes.\<close>

record ChatMemoryBuffer =
  chat_store_ref :: addr
  chat_store_key :: string

datatype callback_handler =
    LlamaDebugHandler string
  | OpenInferenceTraceCallbackHandler
  | LlamaIndexCallbackHandler

record CallbackManager =
  cm_id :: addr
  handlers :: "callback_handler list"

text \<open>The three callables imported from the module \<^verbatim>\<open>tools\<close>.\<close>

datatype tool_fn = suggest_choices | roll_a_dice | roll_a_skill

record FunctionTool =
  fn :: tool_fn
  return_direct :: bool

record AgentRunner =
  agent_id :: addr
  tools :: "FunctionTool list"
  verbose :: bool
  max_iterations :: nat
  memory :: addr
  system_prompt :: "string option"

section \<open>The process\<close>

text \<open>
  The state of the running module: the files on disk with the journal of the paths written,
  the log, the messages sent to the web client, the two heaps (chat stores and memory
  buffers, by address) with the allocation pointer, the module-level names
  \<^verbatim>\<open>chat_store\<close> and \<^verbatim>\<open>chat_memory\<close> (references), the slot
  \<^verbatim>\<open>Settings.callback_manager\<close>, the level of the logger named debug, and the
  per-session dictionaries of the web front-end.
\<close>

record process =
  files :: "string \<rightharpoonup> string"
  writes :: "string list"
  log :: "(log_level \<times> string) list"
  sent :: "(nat \<times> string) list"
  stores :: "addr \<Rightarrow> SimpleChatStore"
  memories :: "addr \<Rightarrow> ChatMemoryBuffer"
  next_addr :: addr
  chat_store :: addr
  chat_memory :: addr
  Settings_callback_manager :: "CallbackManager option"
  debug_logger_level :: "log_level option"
  user_session :: "(nat \<times> string) \<rightharpoonup> AgentRunner"

section \<open>The framework that main.py calls\<close>

text \<open>
  The operations of the libraries whose results main.py depends on are parameters of the
  model: the loader of a persisted chat store (it returns a store or raises), the
  serialiser that \<^verbatim>\<open>persist\<close> writes, the iteration limit that
  \<^verbatim>\<open>ReActAgent.from_tools\<close> takes when no \<^verbatim>\<open>max_iterations\<close> is passed, the
  reasoning loop on a history and a message (it answers or raises), and the terminal loop
  \<^verbatim>\<open>chat_repl\<close>, which returns or raises. The statements of the module that
  configure logging, launch the tracing application and bind the two models hold no state
  that the functions below read, and are left out. The disk is a map from paths to
  contents: a write to it succeeds.
\<close>

datatype repl_outcome = Returned | Raised py_exception

record framework =
  from_persist_path :: "(string \<rightharpoonup> string) \<Rightarrow> string \<Rightarrow> py_exception + SimpleChatStore"
  to_json :: "SimpleChatStore \<Rightarrow> string"
  default_max_iterations :: nat
  reasoning_loop :: "AgentRunner \<Rightarrow> chat_message list \<Rightarrow> string \<Rightarrow> py_exception + string"
  chat_repl :: "AgentRunner \<Rightarrow> process \<Rightarrow> repl_outcome \<times> process"

subsection \<open>Module initialisation (lines 52 to 60)\<close>

text \<open>
  \<^verbatim>\<open>
  try:
      chat_store = SimpleChatStore.from_persist_path(persist_path="chat_store.json")
  except Exception as e:
      logger.warning(f"Failed to load chat store from file: {e}, using a new one.")
      chat_store = SimpleChatStore()
  \<close>
  The result is the store bound to \<^verbatim>\<open>chat_store\<close> and the lines logged, or the exception
  that leaves the module.
\<close>

definition load_chat_store ::
  "framework \<Rightarrow> (string \<rightharpoonup> string) \<Rightarrow> py_exception + (SimpleChatStore \<times> (log_level \<times> string) list)" where
  "load_chat_store fw fs =
     (case from_persist_path fw fs ''chat_store.json'' of
        Inr s \<Rightarrow> Inr (s, [])
      | Inl (Exception e) \<Rightarrow>
          Inr (Map.empty,
               [(WARNING, ''Failed to load chat store from file: '' @ e @ '', using a new one.'')])
      | Inl KeyboardInterrupt \<Rightarrow> Inl KeyboardInterrupt
      | Inl SystemExit \<Rightarrow> Inl SystemExit)"

text \<open>
  \<^verbatim>\<open>
  chat_memory = ChatMemoryBuffer.from_defaults(chat_store=chat_store, chat_store_key="user1")
  \<close>
  The store is allocated at address 0 and the buffer at address 1.
\<close>

definition module_init :: "framework \<Rightarrow> (string \<rightharpoonup> string) \<Rightarrow> py_exception + process" where
  "module_init fw fs =
     (case load_chat_store fw fs of
        Inl e \<Rightarrow> Inl e
      | Inr (s, lg) \<Rightarrow>
          Inr \<lparr> files = fs, writes = [], log = lg, sent = [],
                stores = (\<lambda>_. Map.empty)(0 := s),
                memories = (\<lambda>_. \<lparr>chat_store_ref = 0, chat_store_key = []\<rparr>)
                             (1 := \<lparr>chat_store_ref = 0, chat_store_key = ''user1''\<rparr>),
                next_addr = 2, chat_store = 0, chat_memory = 1,
                Settings_callback_manager = None, debug_logger_level = None,
                user_session = Map.empty \<rparr>)"

subsection \<open>The memory buffer over its chat store\<close>

text \<open>
  \<^verbatim>\<open>ChatMemoryBuffer.get_all\<close> reads the messages of the buffer's key in the buffer's
  store; \<^verbatim>\<open>ChatMemoryBuffer.put\<close> appends a message to them. The buffer holds no
  messages of its own.
\<close>

definition get_all :: "process \<Rightarrow> addr \<Rightarrow> chat_message list" where
  "get_all p m =
     (case stores p (chat_store_ref (memories p m)) (chat_store_key (memories p m)) of
        None \<Rightarrow> [] | Some ms \<Rightarrow> ms)"

definition store_of :: "process \<Rightarrow> SimpleChatStore" where
  "store_of p = stores p (chat_store p)"


definition put :: "process \<Rightarrow> addr \<Rightarrow> chat_message \<Rightarrow> process" where
  "put p m msg =
     (let a = chat_store_ref (memories p m); k = chat_store_key (memories p m); s = stores p a
      in p\<lparr>stores := (stores p)(a := s(k \<mapsto> (case s k of None \<Rightarrow> [] | Some ms \<Rightarrow> ms) @ [msg]))\<rparr>)"

text \<open>
  The chat operation of an agent (\<^verbatim>\<open>agent.achat\<close>), as sections 4.2 and 5 of the
  specification describe it: the user turn is appended to the agent's memory, the reasoning
  loop answers on that history, the response turn is appended; a turn whose reasoning
  raises is abandoned before it is recorded.
\<close>

definition achat ::
  "framework \<Rightarrow> AgentRunner \<Rightarrow> string \<Rightarrow> process \<Rightarrow> (py_exception + string) \<times> process" where
  "achat fw agent message p =
     (let p1 = put p (memory agent) (USER, message)
      in case reasoning_loop fw agent (get_all p1 (memory agent)) message of
           Inl e \<Rightarrow> (Inl e, p)
         | Inr response \<Rightarrow> (Inr response, put p1 (memory agent) (ASSISTANT, response)))"

text \<open>\<^verbatim>\<open>SimpleChatStore.persist\<close>: the file at the path is replaced by the serialised store.\<close>

definition persist :: "framework \<Rightarrow> addr \<Rightarrow> string \<Rightarrow> process \<Rightarrow> process" where
  "persist fw st persist_path p =
     p\<lparr>files := (files p)(persist_path \<mapsto> to_json fw (stores p st)),
       writes := writes p @ [persist_path]\<rparr>"

section \<open>Strings\<close>

text \<open>\<^verbatim>\<open>str(n)\<close> of an integer: its decimal digits, after a minus sign when negative.\<close>

function str_nat :: "nat \<Rightarrow> string" where
  "str_nat n =
     (if n < 10 then [''0123456789'' ! n]
      else str_nat (n div 10) @ [''0123456789'' ! (n mod 10)])"
  by pat_completeness auto
termination
  by (relation "measure id") auto

declare str_nat.simps [simp del]

definition str :: "int \<Rightarrow> string" where
  "str i = (if i < 0 then CHR ''-'' # str_nat (nat (- i)) else str_nat (nat i))"

text \<open>
  \<^verbatim>\<open>s.replace(old, new)\<close>: the occurrences of \<open>old\<close> are found from the left, without
  overlap, and each is replaced by \<open>new\<close>; an empty \<open>old\<close> matches before every character
  and at the end.
\<close>

function replace :: "string \<Rightarrow> string \<Rightarrow> string \<Rightarrow> string" where
  "replace old new s =
     (if old = [] then new @ concat (map (\<lambda>c. c # new) s)
      else if s = [] then []
      else if prefix old s then new @ replace old new (drop (length old) s)
      else hd s # replace old new (tl s))"
  by pat_completeness auto
termination
  by (relation "measure (\<lambda>(old, new, s). length s)") auto

declare replace.simps [simp del]

section \<open>Agent construction (lines 94 to 152)\<close>

text \<open>
  \<^verbatim>\<open>
  def create_callback_manager(should_use_chainlit: bool = True) -> CallbackManager:
      debug_logger = logging.getLogger("debug")
      debug_logger.setLevel(logging.DEBUG)
      callback_handlers = [
          LlamaDebugHandler(logger=debug_logger),
          OpenInferenceTraceCallbackHandler(),
      ]
      if should_use_chainlit:
          callback_handlers.append(cl.LlamaIndexCallbackHandler())
      return CallbackManager(callback_handlers)
  \<close>
  The manager is a new object: its identity is the allocation pointer.
\<close>

definition create_callback_manager :: "bool \<Rightarrow> process \<Rightarrow> CallbackManager \<times> process" where
  "create_callback_manager should_use_chainlit p =
     (let callback_handlers = [LlamaDebugHandler ''debug'', OpenInferenceTraceCallbackHandler];
          callback_handlers =
            (if should_use_chainlit then callback_handlers @ [LlamaIndexCallbackHandler]
             else callback_handlers)
      in (\<lparr>cm_id = next_addr p, handlers = callback_handlers\<rparr>,
          p\<lparr>debug_logger_level := Some DEBUG, next_addr := Suc (next_addr p)\<rparr>))"

text \<open>
  \<^verbatim>\<open>FunctionTool.from_defaults(fn, return_direct=...)\<close>: the flag is False when the
  argument is not passed.
\<close>

definition from_defaults :: "tool_fn \<Rightarrow> bool option \<Rightarrow> FunctionTool" where
  "from_defaults f rd = \<lparr>fn = f, return_direct = (case rd of None \<Rightarrow> False | Some b \<Rightarrow> b)\<rparr>"

text \<open>
  \<^verbatim>\<open>ReActAgent.from_tools(tools=..., verbose=..., max_iterations=..., memory=...)\<close>: a new
  agent object over the given tools and the given memory object; the iteration limit is the
  framework's default when the argument is not passed.
\<close>

definition from_tools ::
  "framework \<Rightarrow> FunctionTool list \<Rightarrow> bool \<Rightarrow> nat option \<Rightarrow> addr \<Rightarrow> process \<Rightarrow> AgentRunner \<times> process" where
  "from_tools fw ts v mi m p =
     (\<lparr>agent_id = next_addr p, tools = ts, verbose = v,
       max_iterations = (case mi of None \<Rightarrow> default_max_iterations fw | Some n \<Rightarrow> n),
       memory = m, system_prompt = None\<rparr>,
      p\<lparr>next_addr := Suc (next_addr p)\<rparr>)"

text \<open>\<^verbatim>\<open>open(path)\<close> of a missing file raises FileNotFoundError.\<close>

definition FileNotFoundError :: "string \<Rightarrow> py_exception" where
  "FileNotFoundError path =
     Exception (''[Errno 2] No such file or directory: '' @ [CHR 0x27] @ path @ [CHR 0x27])"

text \<open>
  \<^verbatim>\<open>
  def create_agent(should_use_chainlit: bool, max_action_steps: int = 5) -> AgentRunner:
      Settings.callback_manager = create_callback_manager(should_use_chainlit)
      all_tools = [
          FunctionTool.from_defaults(ToolForSuggestingChoices().suggest_choices, return_direct=True),
          FunctionTool.from_defaults(roll_a_dice),
          FunctionTool.from_defaults(roll_a_skill),
      ]
      agent = ReActAgent.from_tools(
          tools=all_tools,
          verbose=True,
          # x2: An observation step also takes as an iteration.
          # +1: The final output reasoning step needs to take a spot.
          memory=chat_memory,
      )
      with open("prompts/system_prompt.md") as f:
          MY_SYSTEM_PROMPT = f.read()
      my_system_prompt = MY_SYSTEM_PROMPT.replace("{allowance}", str(max_action_steps))
      system_prompt = PromptTemplate(my_system_prompt)
      agent.update_prompts({"agent_worker:system_prompt": system_prompt})
      return agent
  \<close>
  The optional argument is \<open>None\<close> when the caller leaves it out. The state is returned
  also when the function raises: the slot \<^verbatim>\<open>Settings.callback_manager\<close> is assigned
  before the prompt file is opened.
\<close>

definition create_agent ::
  "framework \<Rightarrow> bool \<Rightarrow> int option \<Rightarrow> process \<Rightarrow> (py_exception + AgentRunner) \<times> process" where
  "create_agent fw should_use_chainlit max_action_steps_arg p =
     (let max_action_steps = (case max_action_steps_arg of None \<Rightarrow> 5 | Some n \<Rightarrow> n);
          (cm, p1) = create_callback_manager should_use_chainlit p;
          p2 = p1\<lparr>Settings_callback_manager := Some cm\<rparr>;
          all_tools = [from_defaults suggest_choices (Some True),
                       from_defaults roll_a_dice None,
                       from_defaults roll_a_skill None];
          (agent, p3) = from_tools fw all_tools True None (chat_memory p2) p2
      in case files p3 ''prompts/system_prompt.md'' of
           None \<Rightarrow> (Inl (FileNotFoundError ''prompts/system_prompt.md''), p3)
         | Some MY_SYSTEM_PROMPT \<Rightarrow>
             (Inr (agent\<lparr>system_prompt :=
                     Some (replace ''{allowance}'' (str max_action_steps) MY_SYSTEM_PROMPT)\<rparr>),
              p3))"

section \<open>The web front-end (lines 155 to 190)\<close>

text \<open>
  \<^verbatim>\<open>
  @cl.on_chat_start
  async def factory():
      cl.user_session.set("agent", create_agent(should_use_chainlit=True))
  \<close>
  The handler runs in the session \<open>sid\<close>.
\<close>

definition factory :: "framework \<Rightarrow> nat \<Rightarrow> process \<Rightarrow> py_exception option \<times> process" where
  "factory fw sid p =
     (case create_agent fw True None p of
        (Inl e, p') \<Rightarrow> (Some e, p')
      | (Inr agent, p') \<Rightarrow>
          (None, p'\<lparr>user_session := (user_session p')((sid, ''agent'') \<mapsto> agent)\<rparr>))"

text \<open>
  \<^verbatim>\<open>
  @cl.on_chat_end
  async def cleanup():
      logger.warning("Interrupted. Persisting chat storage.")
      chat_store.persist(persist_path="chat_store.json")
  \<close>
\<close>

definition cleanup :: "framework \<Rightarrow> process \<Rightarrow> process" where
  "cleanup fw p =
     (let p1 = p\<lparr>log := log p @ [(WARNING, ''Interrupted. Persisting chat storage.'')]\<rparr>
      in persist fw (chat_store p1) ''chat_store.json'' p1)"

text \<open>
  \<^verbatim>\<open>
  @cl.on_message
  async def main(message: cl.Message):
      agent: AgentRunner = cl.user_session.get("agent")
      response = await agent.achat(message.content)
      response_message = cl.Message(content="")
      response_message.content = response.response
      await response_message.send()
  \<close>
  \<^verbatim>\<open>user_session.get\<close> gives \<^verbatim>\<open>None\<close> for a key that was never set, and the call of
  \<^verbatim>\<open>achat\<close> on it raises AttributeError; an exception of \<^verbatim>\<open>achat\<close> leaves the
  handler before anything is sent.
\<close>

definition main :: "framework \<Rightarrow> nat \<Rightarrow> string \<Rightarrow> process \<Rightarrow> py_exception option \<times> process" where
  "main fw sid content p =
     (case user_session p (sid, ''agent'') of
        None \<Rightarrow>
          (Some (Exception (CHR 0x27 # ''NoneType'' @ [CHR 0x27] @ '' object has no attribute ''
                            @ [CHR 0x27] @ ''achat'' @ [CHR 0x27])), p)
      | Some agent \<Rightarrow>
          (case achat fw agent content p of
             (Inl e, p') \<Rightarrow> (Some e, p')
           | (Inr response, p') \<Rightarrow> (None, p'\<lparr>sent := sent p' @ [(sid, response)]\<rparr>)))"

text \<open>The events that the web launcher delivers, and a run of the handlers over them.\<close>

datatype web_event = ChatStart nat | Message nat string | ChatEnd nat

fun web_step :: "framework \<Rightarrow> process \<Rightarrow> web_event \<Rightarrow> process" where
  "web_step fw p (ChatStart sid) = snd (factory fw sid p)"
| "web_step fw p (Message sid content) = snd (main fw sid content p)"
| "web_step fw p (ChatEnd sid) = cleanup fw p"

definition web_run :: "framework \<Rightarrow> process \<Rightarrow> web_event list \<Rightarrow> process" where
  "web_run fw p evs = foldl (web_step fw) p evs"

section \<open>The terminal front-end (lines 193 to 200)\<close>

text \<open>
  \<^verbatim>\<open>
  try:
      agent.chat_repl()
  except KeyboardInterrupt:
      logger.warning("Interrupted. Persisting chat storage.")
      chat_store.persist(persist_path="chat_store.json")
  \<close>
\<close>

definition repl_until_interrupt ::
  "framework \<Rightarrow> AgentRunner \<Rightarrow> process \<Rightarrow> py_exception option \<times> process" where
  "repl_until_interrupt fw agent p =
     (case chat_repl fw agent p of
        (Returned, p') \<Rightarrow> (None, p')
      | (Raised KeyboardInterrupt, p') \<Rightarrow>
          (let p1 = p'\<lparr>log := log p' @ [(WARNING, ''Interrupted. Persisting chat storage.'')]\<rparr>
           in (None, persist fw (chat_store p1) ''chat_store.json'' p1))
      | (Raised e, p') \<Rightarrow> (Some e, p'))"

text \<open>
  \<^verbatim>\<open>
  if __name__ == "__main__":
      agent = create_agent(should_use_chainlit=False)
      try: ...
  \<close>
\<close>

definition main_block :: "framework \<Rightarrow> process \<Rightarrow> py_exception option \<times> process" where
  "main_block fw p =
     (case create_agent fw False None p of
        (Inl e, p') \<Rightarrow> (Some e, p')
      | (Inr agent, p') \<Rightarrow> repl_until_interrupt fw agent p')"

section \<open>The reasoning loop of an agent\<close>

text \<open>
  Modelled from the spec: the reasoning loop of the agent framework, which is not part of
  the source. By sections 4.1 and 4.2 and the glossary of the specification, an agent
  decides step by step whether to call a tool or to give its final answer, at most as many
  times as its limit of iterations; the output of a tool is surfaced to the agent, as is the
  error of a call that cannot be carried out; a tool registered with the direct-return flag
  ends the turn: the agent stops iterating and the output of the tool is the answer,
  unmodified. The decisions of the language model (from the history and the observations so
  far) and the tools themselves (the module \<^verbatim>\<open>tools\<close>) are parameters. The loop returns the
  answer, or the exception that ends the turn, with the steps taken in order.
\<close>

datatype reasoning_step = FinalAnswer string | ToolCall tool_fn string

fun react_loop ::
  "(chat_message list \<Rightarrow> string list \<Rightarrow> py_exception + reasoning_step) \<Rightarrow>
   (tool_fn \<Rightarrow> string \<Rightarrow> string) \<Rightarrow> AgentRunner \<Rightarrow> chat_message list \<Rightarrow> string list \<Rightarrow> nat \<Rightarrow>
   (py_exception + string) \<times> reasoning_step list" where
  "react_loop llm call_tool agent history observations 0 =
     (Inl (Exception ''Reached max iterations.''), [])"
| "react_loop llm call_tool agent history observations (Suc n) =
     (case llm history observations of
        Inl e \<Rightarrow> (Inl e, [])
      | Inr (FinalAnswer r) \<Rightarrow> (Inr r, [FinalAnswer r])
      | Inr (ToolCall f input) \<Rightarrow>
          (case find (\<lambda>t. fn t = f) (tools agent) of
             None \<Rightarrow>
               (case react_loop llm call_tool agent history
                       (observations @ [''Error: no such tool'']) n of
                  (r, steps) \<Rightarrow> (r, ToolCall f input # steps))
           | Some t \<Rightarrow>
               (let output = call_tool f input
                in if return_direct t then (Inr output, [ToolCall f input])
                   else (case react_loop llm call_tool agent history (observations @ [output]) n of
                           (r, steps) \<Rightarrow> (r, ToolCall f input # steps)))))"

declare react_loop.simps [simp del]

text \<open>A framework whose reasoning loop is this loop, run up to the agent's limit.\<close>

definition with_react_loop ::
  "framework \<Rightarrow> (chat_message list \<Rightarrow> string list \<Rightarrow> py_exception + reasoning_step) \<Rightarrow>
   (tool_fn \<Rightarrow> string \<Rightarrow> string) \<Rightarrow> framework" where
  "with_react_loop fw llm call_tool =
     fw\<lparr>reasoning_loop :=
          (\<lambda>agent history message.
             fst (react_loop llm call_tool agent history [] (max_iterations agent)))\<rparr>"

section \<open>Concrete inputs\<close>

text \<open>
  A framework, two disks and a process to run the module on: the loader raises on a missing
  or an empty file and otherwise gives a store with one user turn, the limit of iterations
  is 10, the reasoning loop always gives the same answer, and the terminal loop records one
  user turn before it is interrupted.
\<close>

definition example_framework :: framework where
  "example_framework =
     \<lparr> from_persist_path =
         (\<lambda>fs path. case fs path of
                       None \<Rightarrow> Inl (FileNotFoundError path)
                     | Some t \<Rightarrow> if t = [] then Inl (Exception ''Expecting value'')
                                else Inr [''user1'' \<mapsto> [(USER, t)]]),
       to_json = (\<lambda>s. case s ''user1'' of None \<Rightarrow> [] | Some ms \<Rightarrow> concat (map snd ms)),
       default_max_iterations = 10,
       reasoning_loop = (\<lambda>a h m. Inr ''You rolled a 4.''),
       chat_repl = (\<lambda>a p. (Raised KeyboardInterrupt, put p (memory a) (USER, ''roll a d6''))) \<rparr>"

definition example_files :: "string \<rightharpoonup> string" where
  "example_files =
     [''prompts/system_prompt.md'' \<mapsto> ''Take at most {allowance} steps.'',
      ''chat_store.json'' \<mapsto> ''hello'']"

definition fresh_files :: "string \<rightharpoonup> string" where
  "fresh_files = [''prompts/system_prompt.md'' \<mapsto> ''Take at most {allowance} steps.'']"

definition example_process :: process where
  "example_process =
     \<lparr> files = fresh_files, writes = [], log = [], sent = [],
       stores = (\<lambda>_. Map.empty),
       memories = (\<lambda>_. \<lparr>chat_store_ref = 0, chat_store_key = []\<rparr>)
                    (1 := \<lparr>chat_store_ref = 0, chat_store_key = ''user1''\<rparr>),
       next_addr = 2, chat_store = 0, chat_memory = 1,
       Settings_callback_manager = None, debug_logger_level = None,
       user_session = Map.empty \<rparr>"

text \<open>
  A language model that rolls a dice first and asks for choices on every later step, and
  tools with fixed outputs.
\<close>

definition example_llm :: "chat_message list \<Rightarrow> string list \<Rightarrow> py_exception + reasoning_step" where
  "example_llm history observations =
     (if observations = [] then Inr (ToolCall roll_a_dice ''d6'')
      else Inr (ToolCall suggest_choices ''what next''))"

definition example_call_tool :: "tool_fn \<Rightarrow> string \<Rightarrow> string" where
  "example_call_tool f input = (if f = suggest_choices then ''Fight or flee?'' else ''4'')"

text \<open>The tool list that \<open>create_agent\<close> builds.\<close>

definition three_tools :: "FunctionTool list" where
  "three_tools = [from_defaults suggest_choices (Some True), from_defaults roll_a_dice None,
                  from_defaults roll_a_skill None]"

text \<open>What the agent that a web session holds reads from its memory.\<close>

definition session_history :: "process \<Rightarrow> nat \<Rightarrow> chat_message list option" where
  "session_history p sid =
     (case user_session p (sid, ''agent'') of
        None \<Rightarrow> None
      | Some agent \<Rightarrow> Some (get_all p (memory agent)))"

text \<open>The process after two web sessions have started.\<close>

definition two_sessions :: process where
  "two_sessions = web_run example_framework example_process [ChatStart 1, ChatStart 2]"


section \<open>Facts about the string operations\<close>

lemma str_5: "str 5 = ''5''"
  by (simp add: str_def str_nat.simps)

lemma replace_empty: "old \<noteq> [] \<Longrightarrow> replace old new [] = []"
  by (subst replace.simps) simp

lemma replace_match:
  "old \<noteq> [] \<Longrightarrow> prefix old s \<Longrightarrow>
   replace old new s = new @ replace old new (drop (length old) s)"
  by (subst replace.simps) auto

lemma replace_skip:
  "old \<noteq> [] \<Longrightarrow> \<not> prefix old (c # cs) \<Longrightarrow> replace old new (c # cs) = c # replace old new cs"
  by (subst replace.simps) simp

text \<open>
  Up to its first replacement the result is the input: a string that shares no character
  with \<open>new\<close> and starts the result starts the input too.
\<close>

lemma prefix_replace:
  "old \<noteq> [] \<Longrightarrow> new \<noteq> [] \<Longrightarrow> set new \<inter> set q = {} \<Longrightarrow>
   prefix q (replace old new s) \<Longrightarrow> prefix q s"
proof (induction old new s arbitrary: q rule: replace.induct)
  case (1 old new s)
  show ?case
  proof (cases s)
    case Nil
    with 1 show ?thesis by (simp add: replace_empty)
  next
    case (Cons c cs)
    then have ne: "s \<noteq> []" by simp
    show ?thesis
    proof (cases "prefix old s")
      case True
      with 1 have "prefix q (new @ replace old new (drop (length old) s))"
        by (simp add: replace_match)
      with 1 have "q = []"
        by (cases q; cases new) auto
      then show ?thesis by simp
    next
      case False
      with 1 Cons have pq: "prefix q (c # replace old new cs)" by (simp add: replace_skip)
      show ?thesis
      proof (cases q)
        case Nil
        then show ?thesis by simp
      next
        case q: (Cons d q')
        with pq have c: "d = c" and p': "prefix q' (replace old new cs)" by auto
        from 1 q have "set new \<inter> set q' = {}" by auto
        with "1.IH"(2)[OF _ ne False, of q'] 1 p' Cons have "prefix q' cs" by simp
        with c q Cons show ?thesis by simp
      qed
    qed
  qed
qed

lemma sublist_append_disjoint:
  "old \<noteq> [] \<Longrightarrow> set new \<inter> set old = {} \<Longrightarrow> sublist old (new @ r) \<Longrightarrow> sublist old r"
proof (induction new)
  case Nil
  then show ?case by simp
next
  case (Cons c new)
  from Cons.prems have "prefix old (c # new @ r) \<or> sublist old (new @ r)"
    by (simp add: sublist_Cons_right)
  moreover have "\<not> prefix old (c # new @ r)"
    using Cons.prems by (cases old) auto
  ultimately show ?case using Cons by auto
qed

text \<open>
  When \<open>new\<close> is not empty and shares no character with \<open>old\<close>, no occurrence of \<open>old\<close>
  is left in the result, and none is created by the replacements.
\<close>

lemma replace_no_old:
  "old \<noteq> [] \<Longrightarrow> new \<noteq> [] \<Longrightarrow> set new \<inter> set old = {} \<Longrightarrow>
   \<not> sublist old (replace old new s)"
proof (induction old new s rule: replace.induct)
  case (1 old new s)
  show ?case
  proof (cases s)
    case Nil
    with 1 show ?thesis by (simp add: replace_empty)
  next
    case (Cons c cs)
    then have ne: "s \<noteq> []" by simp
    show ?thesis
    proof (cases "prefix old s")
      case True
      with 1 ne have "\<not> sublist old (replace old new (drop (length old) s))" by simp
      with 1 have "\<not> sublist old (new @ replace old new (drop (length old) s))"
        using sublist_append_disjoint by blast
      with 1 True show ?thesis by (simp add: replace_match)
    next
      case False
      with 1 ne Cons have ih: "\<not> sublist old (replace old new cs)" by simp
      have "\<not> prefix old (c # replace old new cs)"
      proof
        assume "prefix old (c # replace old new cs)"
        with 1 Cons False have "prefix old (replace old new s)" by (simp add: replace_skip)
        with 1 have "prefix old s" using prefix_replace[of old new old s] by blast
        with False show False by simp
      qed
      with ih have "\<not> sublist old (c # replace old new cs)"
        by (simp add: sublist_Cons_right)
      with 1 Cons False show ?thesis by (simp add: replace_skip)
    qed
  qed
qed

lemma replace_has_new:
  "old \<noteq> [] \<Longrightarrow> sublist old s \<Longrightarrow> sublist new (replace old new s)"
proof (induction old new s rule: replace.induct)
  case (1 old new s)
  from 1 have ne: "s \<noteq> []" by auto
  show ?case
  proof (cases "prefix old s")
    case True
    with 1 show ?thesis by (simp add: replace_match)
  next
    case False
    from ne obtain c cs where s: "s = c # cs" by (cases s) auto
    with 1 False have "sublist old cs" by (simp add: sublist_Cons_right)
    with 1 ne False s have "sublist new (replace old new cs)" by simp
    then have "sublist new (c # replace old new cs)" by (simp add: sublist_Cons_right)
    with 1 False s show ?thesis by (simp add: replace_skip)
  qed
qed


text \<open>
  A stretch of text without the first character of \<open>old\<close> is copied as it is, and the
  occurrence of \<open>old\<close> after it is replaced.
\<close>

lemma replace_segment:
  "old \<noteq> [] \<Longrightarrow> hd old \<notin> set pre \<Longrightarrow>
   replace old new (pre @ old @ rest) = pre @ new @ replace old new rest"
proof (induction pre)
  case Nil
  then show ?case by (simp add: replace_match)
next
  case (Cons c pre)
  then have "\<not> prefix old (c # pre @ old @ rest)" by (cases old) auto
  with Cons show ?case by (simp add: replace_skip)
qed

lemma replace_no_match:
  "old \<noteq> [] \<Longrightarrow> hd old \<notin> set s \<Longrightarrow> replace old new s = s"
proof (induction s)
  case Nil
  then show ?case by (simp add: replace_empty)
next
  case (Cons c s)
  then have "\<not> prefix old (c # s)" by (cases old) auto
  with Cons show ?case by (simp add: replace_skip)
qed

section \<open>Facts about agent construction\<close>

text \<open>The whole effect of \<open>create_agent\<close>, with the helpers unfolded.\<close>

lemma create_agent_unfold:
  "create_agent fw b n p =
     (let p3 = p\<lparr>debug_logger_level := Some DEBUG, next_addr := Suc (Suc (next_addr p)),
                 Settings_callback_manager :=
                   Some \<lparr>cm_id = next_addr p,
                         handlers = [LlamaDebugHandler ''debug'', OpenInferenceTraceCallbackHandler]
                                    @ (if b then [LlamaIndexCallbackHandler] else [])\<rparr>\<rparr>
      in case files p ''prompts/system_prompt.md'' of
           None \<Rightarrow> (Inl (FileNotFoundError ''prompts/system_prompt.md''), p3)
         | Some t \<Rightarrow>
            (Inr \<lparr>agent_id = Suc (next_addr p),
                  tools = [\<lparr>fn = suggest_choices, return_direct = True\<rparr>,
                           \<lparr>fn = roll_a_dice, return_direct = False\<rparr>,
                           \<lparr>fn = roll_a_skill, return_direct = False\<rparr>],
                  verbose = True, max_iterations = default_max_iterations fw,
                  memory = chat_memory p,
                  system_prompt =
                    Some (replace ''{allowance}'' (str (case n of None \<Rightarrow> 5 | Some k \<Rightarrow> k)) t)\<rparr>,
             p3))"
  by (simp add: create_agent_def create_callback_manager_def from_tools_def from_defaults_def
        Let_def split: option.splits)

lemma create_agent_tools:
  "create_agent fw b n p = (Inr a, p') \<Longrightarrow>
   tools a = [from_defaults suggest_choices (Some True), from_defaults roll_a_dice None,
              from_defaults roll_a_skill None]"
  by (auto simp: create_agent_unfold from_defaults_def Let_def split: option.splits)

lemma create_agent_user_session:
  "user_session (snd (create_agent fw b n p)) = user_session p"
  by (simp add: create_agent_unfold Let_def split: option.splits)

text \<open>The limit of iterations of a constructed agent is the framework's default.\<close>

lemma max_iterations_default:
  "fst (create_agent fw b n p) = Inr a \<Longrightarrow> max_iterations a = default_max_iterations fw"
  by (auto simp: create_agent_unfold Let_def split: option.splits)

text \<open>Agent construction leaves the disk, the heaps and the module-level names as they are.\<close>

lemma create_agent_disk:
  "files (snd (create_agent fw b n p)) = files p \<and> writes (snd (create_agent fw b n p)) = writes p"
  by (simp add: create_agent_unfold Let_def split: option.splits)


lemma factory_example:
  "files p ''prompts/system_prompt.md'' = Some t \<Longrightarrow>
   \<exists>p'. factory fw sid p = (None, p') \<and> files p' = files p"
  by (simp add: factory_def create_agent_unfold Let_def)

text \<open>The terminal block when the agent cannot be constructed: the exception leaves the block.\<close>

lemma main_block_no_agent:
  "create_agent fw False None p = (Inl e, p1) \<Longrightarrow>
   main_block fw p = (Some e, p1) \<and> writes p1 = writes p \<and> files p1 = files p"
  using create_agent_disk[of fw False None p] by (simp add: main_block_def)

section \<open>Facts about the memory buffer\<close>

text \<open>A message put through a buffer is read through it, also by another holder of the buffer.\<close>

lemma get_all_put: "get_all (put q m msg) m = get_all q m @ [msg]"
  by (simp add: get_all_def put_def Let_def split: option.splits)

lemma get_all_achat:
  "memory a2 = memory a1 \<Longrightarrow> achat fw a1 c q = (Inr r, q') \<Longrightarrow>
   get_all q' (memory a2) = get_all q (memory a2) @ [(USER, c), (ASSISTANT, r)]"
  by (auto simp: achat_def Let_def get_all_put split: sum.splits)

section \<open>Facts about web runs\<close>

text \<open>
  No handler changes the tools of an agent held by a session: the invariant of one step, and
  of a run by induction on the events.
\<close>

lemma web_step_tools:
  assumes inv: "\<And>sid a. user_session p (sid, ''agent'') = Some a \<Longrightarrow> tools a = ts"
    and ts: "ts = [from_defaults suggest_choices (Some True), from_defaults roll_a_dice None,
              from_defaults roll_a_skill None]"
    and a: "user_session (web_step fw p ev) (sid, ''agent'') = Some a"
  shows "tools a = ts"
proof (cases ev)
  case (ChatStart s)
  obtain r p' where c: "create_agent fw True None p = (r, p')" by (cases "create_agent fw True None p")
  then have u: "user_session p' = user_session p"
    using create_agent_user_session[of fw True None p] by simp
  show ?thesis
  proof (cases r)
    case (Inl e)
    with ChatStart c u a inv show ?thesis by (simp add: factory_def)
  next
    case (Inr ag)
    with c have "tools ag = ts" using create_agent_tools ts by blast
    with ChatStart c u a inv Inr show ?thesis
      by (auto simp: factory_def split: if_splits)
  qed
next
  case (Message s c)
  have "user_session (snd (main fw s c p)) = user_session p"
    by (simp add: main_def achat_def put_def Let_def split: option.splits prod.splits sum.splits)
  with Message a inv show ?thesis by simp
next
  case (ChatEnd s)
  have "user_session (cleanup fw p) = user_session p"
    by (simp add: cleanup_def persist_def Let_def)
  with ChatEnd a inv show ?thesis by simp
qed

lemma web_run_tools:
  assumes "\<And>sid a. user_session p (sid, ''agent'') = Some a \<Longrightarrow> tools a = ts"
    and "ts = [from_defaults suggest_choices (Some True), from_defaults roll_a_dice None,
              from_defaults roll_a_skill None]"
    and "user_session (web_run fw p evs) (sid, ''agent'') = Some a"
  shows "tools a = ts"
  using assms unfolding web_run_def
proof (induction evs arbitrary: p sid a)
  case Nil
  then show ?case by simp
next
  case (Cons ev evs)
  have "\<And>sid a. user_session (web_step fw p ev) (sid, ''agent'') = Some a \<Longrightarrow> tools a = ts"
    using web_step_tools[of p ts fw ev] Cons.prems(1,2) by blast
  from Cons.IH[OF this Cons.prems(2)] Cons.prems(3) show ?case by simp
qed

text \<open>Module initialisation on the disk without a persisted store, and a session of it.\<close>

lemma module_init_example:
  "module_init example_framework fresh_files =
     Inr (example_process\<lparr>log := [(WARNING, ''Failed to load chat store from file: ''
        @ ''[Errno 2] No such file or directory: '' @ [CHR 0x27] @ ''chat_store.json'' @ [CHR 0x27]
        @ '', using a new one.'')]\<rparr>)"
  by (simp add: module_init_def load_chat_store_def example_framework_def fresh_files_def
        FileNotFoundError_def example_process_def fun_eq_iff)

lemma example_session:
  "\<exists>a. user_session (web_run example_framework (example_process\<lparr>log := l\<rparr>)
           [ChatStart 1, Message 1 ''roll a d6'', ChatEnd 1]) (1, ''agent'') = Some a"
  by (simp add: web_run_def factory_def main_def cleanup_def persist_def achat_def put_def
        create_agent_unfold example_process_def example_framework_def fresh_files_def Let_def)




section \<open>Facts about the reasoning loop\<close>

text \<open>
  Over the three tools of a constructed agent: a call of the choice-suggestion tool ends the
  loop with the output of the tool, a call of another tool is followed by the rest of the
  loop, and a call of the choice-suggestion tool among the steps of a turn is the last step.
\<close>

lemma find_three_tools:
  "find (\<lambda>t. fn t = f) three_tools = Some \<lparr>fn = f, return_direct = (f = suggest_choices)\<rparr>"
  by (cases f) (simp_all add: three_tools_def from_defaults_def)

lemma create_agent_three_tools:
  "fst (create_agent fw b n p) = Inr a \<Longrightarrow> tools a = three_tools"
  by (auto simp: create_agent_unfold three_tools_def from_defaults_def Let_def split: option.splits)

lemma react_loop_direct_step:
  "tools a = three_tools \<Longrightarrow> llm h obs = Inr (ToolCall suggest_choices x) \<Longrightarrow>
   react_loop llm ct a h obs (Suc k) = (Inr (ct suggest_choices x), [ToolCall suggest_choices x])"
  by (simp add: react_loop.simps find_three_tools)

lemma react_loop_other_step:
  "tools a = three_tools \<Longrightarrow> f \<noteq> suggest_choices \<Longrightarrow> llm h obs = Inr (ToolCall f x) \<Longrightarrow>
   react_loop llm ct a h obs (Suc k)
     = (case react_loop llm ct a h (obs @ [ct f x]) k of (r, steps) \<Rightarrow> (r, ToolCall f x # steps))"
  by (simp add: react_loop.simps find_three_tools)

lemma react_loop_direct_last:
  assumes "tools a = three_tools"
  shows "ToolCall suggest_choices x \<in> set (snd (react_loop llm ct a h obs k)) \<Longrightarrow>
         fst (react_loop llm ct a h obs k) = Inr (ct suggest_choices x) \<and>
         (\<exists>pre. snd (react_loop llm ct a h obs k) = pre @ [ToolCall suggest_choices x] \<and>
                (\<forall>y. ToolCall suggest_choices y \<notin> set pre))"
proof (induction k arbitrary: obs)
  case 0
  then show ?case by (simp add: react_loop.simps)
next
  case (Suc k)
  show ?case
  proof (cases "llm h obs")
    case (Inl e)
    with Suc.prems show ?thesis by (simp add: react_loop.simps)
  next
    case (Inr step)
    show ?thesis
    proof (cases step)
      case (FinalAnswer r)
      with Inr Suc.prems show ?thesis by (simp add: react_loop.simps)
    next
      case (ToolCall f y)
      show ?thesis
      proof (cases "f = suggest_choices")
        case True
        with ToolCall Inr assms
        have r: "react_loop llm ct a h obs (Suc k) = (Inr (ct suggest_choices y), [ToolCall suggest_choices y])"
          by (simp add: react_loop.simps find_three_tools)
        with Suc.prems have "y = x" by simp
        with r show ?thesis by simp
      next
        case False
        with ToolCall Inr assms
        have r: "react_loop llm ct a h obs (Suc k)
          = (case react_loop llm ct a h (obs @ [ct f y]) k of (r, steps) \<Rightarrow> (r, ToolCall f y # steps))"
          by (simp add: react_loop.simps find_three_tools)
        obtain res steps where k: "react_loop llm ct a h (obs @ [ct f y]) k = (res, steps)"
          by (cases "react_loop llm ct a h (obs @ [ct f y]) k")
        with r Suc.prems False have "ToolCall suggest_choices x \<in> set steps" by auto
        with Suc.IH[of "obs @ [ct f y]"] k
        obtain pre where "res = Inr (ct suggest_choices x)" "steps = pre @ [ToolCall suggest_choices x]"
          "\<forall>y. ToolCall suggest_choices y \<notin> set pre" by auto
        with r k False show ?thesis
          by (auto intro!: exI[of _ "ToolCall f y # pre"])
      qed
    qed
  qed
qed

lemma main_react_direct:
  assumes t: "tools a = three_tools" and m: "0 < max_iterations a"
    and u: "user_session q (sid, ''agent'') = Some a"
    and l: "llm (get_all (put q (memory a) (USER, content)) (memory a)) [] = Inr (ToolCall suggest_choices x)"
  shows "fst (main (with_react_loop fw llm ct) sid content q) = None \<and>
         sent (snd (main (with_react_loop fw llm ct) sid content q)) = sent q @ [(sid, ct suggest_choices x)]"
proof -
  from m obtain k where k: "max_iterations a = Suc k" by (cases "max_iterations a") auto
  have "react_loop llm ct a (get_all (put q (memory a) (USER, content)) (memory a)) [] (Suc k)
          = (Inr (ct suggest_choices x), [ToolCall suggest_choices x])"
    using t l react_loop_direct_step
            [of a llm "get_all (put q (memory a) (USER, content)) (memory a)" "[]" x ct k]
    by simp
  with k u show ?thesis
    by (simp add: main_def achat_def with_react_loop_def put_def Let_def)
qed

section \<open>Startup\<close>

text \<open>
  C1. If loading the persisted chat store from the file \<^verbatim>\<open>chat_store.json\<close> fails at startup
  with an exception (the file is missing or corrupt), the program does not raise: it logs a
  warning and goes on with a fresh empty chat store, which the memory buffer then reads as
  empty. In every run where the load succeeds, the loaded store is the one used, and
  nothing is logged.
\<close>

theorem load_failure_falls_back_to_empty_store:
  "(from_persist_path fw fs ''chat_store.json'' = Inl (Exception e) \<longrightarrow>
      (\<exists>p. module_init fw fs = Inr p \<and> store_of p = Map.empty \<and> get_all p (chat_memory p) = [] \<and>
           log p = [(WARNING, ''Failed to load chat store from file: '' @ e @ '', using a new one.'')])) \<and>
   (from_persist_path fw fs ''chat_store.json'' = Inr s \<longrightarrow>
      (\<exists>p. module_init fw fs = Inr p \<and> store_of p = s \<and> log p = []))"
  by (simp add: module_init_def load_chat_store_def store_of_def get_all_def)

theorem load_failure_witness:
  "from_persist_path example_framework fresh_files ''chat_store.json''
     = Inl (FileNotFoundError ''chat_store.json'') \<and>
   (\<exists>p. module_init example_framework fresh_files = Inr p \<and> store_of p = Map.empty \<and>
        get_all p (chat_memory p) = [] \<and>
        log p = [(WARNING, ''Failed to load chat store from file: ''
                   @ ''[Errno 2] No such file or directory: '' @ [CHR 0x27] @ ''chat_store.json'' @ [CHR 0x27]
                   @ '', using a new one.'')]) \<and>
   from_persist_path example_framework example_files ''chat_store.json''
     = Inr [''user1'' \<mapsto> [(USER, ''hello'')]] \<and>
   (\<exists>p. module_init example_framework example_files = Inr p \<and>
        store_of p = [''user1'' \<mapsto> [(USER, ''hello'')]] \<and> log p = [])"
proof -
  have a: "from_persist_path example_framework fresh_files ''chat_store.json''
     = Inl (Exception (''[Errno 2] No such file or directory: '' @ [CHR 0x27] @ ''chat_store.json'' @ [CHR 0x27]))"
    by (simp add: example_framework_def fresh_files_def FileNotFoundError_def)
  have b: "from_persist_path example_framework example_files ''chat_store.json''
     = Inr [''user1'' \<mapsto> [(USER, ''hello'')]]"
    by (simp add: example_framework_def example_files_def)
  from a b
    load_failure_falls_back_to_empty_store
      [of example_framework fresh_files
          "''[Errno 2] No such file or directory: '' @ [CHR 0x27] @ ''chat_store.json'' @ [CHR 0x27]" Map.empty]
    load_failure_falls_back_to_empty_store
      [of example_framework example_files "[]" "[''user1'' \<mapsto> [(USER, ''hello'')]]"]
  show ?thesis by (simp add: FileNotFoundError_def)
qed

section \<open>The system prompt\<close>

text \<open>
  C2. For the template read from \<^verbatim>\<open>prompts/system_prompt.md\<close>, substituting the allowance
  placeholder with the value 5 gives the agent a system prompt in which every occurrence of
  the token \<^verbatim>\<open>{allowance}\<close> is replaced by the text 5: the prompt is the template with the
  replacement applied, no token \<^verbatim>\<open>{allowance}\<close> is left in it, it contains 5 whenever the
  template contains the token, and a token that follows a stretch of text without an opening
  brace is replaced right after that stretch.
\<close>

theorem allowance_5_leaves_no_placeholder:
  assumes "files p ''prompts/system_prompt.md'' = Some t"
  shows "\<exists>a p'. create_agent fw b (Some 5) p = (Inr a, p') \<and>
           system_prompt a = Some (replace ''{allowance}'' ''5'' t) \<and>
           \<not> sublist ''{allowance}'' (replace ''{allowance}'' ''5'' t) \<and>
           (sublist ''{allowance}'' t \<longrightarrow> sublist ''5'' (replace ''{allowance}'' ''5'' t)) \<and>
           (\<forall>pre rest. t = pre @ ''{allowance}'' @ rest \<and> CHR ''{'' \<notin> set pre \<longrightarrow>
              replace ''{allowance}'' ''5'' t = pre @ ''5'' @ replace ''{allowance}'' ''5'' rest)"
proof -
  have "\<not> sublist ''{allowance}'' (replace ''{allowance}'' ''5'' t)"
    by (rule replace_no_old) simp_all
  moreover have "sublist ''{allowance}'' t \<longrightarrow> sublist ''5'' (replace ''{allowance}'' ''5'' t)"
    by (simp add: replace_has_new)
  moreover have "\<forall>pre rest. t = pre @ ''{allowance}'' @ rest \<and> CHR ''{'' \<notin> set pre \<longrightarrow>
              replace ''{allowance}'' ''5'' t = pre @ ''5'' @ replace ''{allowance}'' ''5'' rest"
    using replace_segment[of "''{allowance}''" _ "''5''"] by simp
  ultimately show ?thesis
    using assms by (simp add: create_agent_unfold str_5)
qed

theorem allowance_5_witness:
  "files example_process ''prompts/system_prompt.md'' = Some ''Take at most {allowance} steps.'' \<and>
   (\<exists>a p'. create_agent example_framework True (Some 5) example_process = (Inr a, p') \<and>
      system_prompt a = Some ''Take at most 5 steps.'' \<and>
      \<not> sublist ''{allowance}'' ''Take at most 5 steps.'' \<and>
      sublist ''{allowance}'' ''Take at most {allowance} steps.'' \<and>
      sublist ''5'' ''Take at most 5 steps.'')"
proof -
  have f: "files example_process ''prompts/system_prompt.md'' = Some ''Take at most {allowance} steps.''"
    by (simp add: example_process_def fresh_files_def)
  have r: "replace ''{allowance}'' ''5'' ''Take at most {allowance} steps.'' = ''Take at most 5 steps.''"
    using replace_segment[of "''{allowance}''" "''Take at most ''" "''5''" "'' steps.''"]
          replace_no_match[of "''{allowance}''" "'' steps.''" "''5''"]
    by simp
  have s: "sublist ''{allowance}'' ''Take at most {allowance} steps.''"
    using sublist_appendI[of "''{allowance}''" "''Take at most ''" "'' steps.''"] by simp
  from allowance_5_leaves_no_placeholder[OF f, of example_framework True]
  obtain a p' where "create_agent example_framework True (Some 5) example_process = (Inr a, p')"
      "system_prompt a = Some (replace ''{allowance}'' ''5'' ''Take at most {allowance} steps.'')"
      "\<not> sublist ''{allowance}'' (replace ''{allowance}'' ''5'' ''Take at most {allowance} steps.'')"
      "sublist ''{allowance}'' ''Take at most {allowance} steps.'' \<longrightarrow>
         sublist ''5'' (replace ''{allowance}'' ''5'' ''Take at most {allowance} steps.'')"
    by blast
  with f r s show ?thesis by simp
qed

text \<open>
  C9. Both front-ends construct their agent without passing \<^verbatim>\<open>max_action_steps\<close>, so in every
  run the allowance substituted into the system prompt is the text 5: for the agent that the
  web handler of a session start stores in the session, and for the agent that the terminal
  block hands to its loop.
\<close>

theorem front_ends_substitute_5:
  assumes "files p ''prompts/system_prompt.md'' = Some t"
  shows "(\<exists>a p'. factory fw sid p = (None, p') \<and> user_session p' (sid, ''agent'') = Some a \<and>
            system_prompt a = Some (replace ''{allowance}'' ''5'' t)) \<and>
         (\<exists>a p'. create_agent fw False None p = (Inr a, p') \<and>
            system_prompt a = Some (replace ''{allowance}'' ''5'' t) \<and>
            main_block fw p = repl_until_interrupt fw a p')"
  using assms
  by (simp add: factory_def main_block_def create_agent_unfold Let_def str_5)

theorem front_ends_witness:
  "files example_process ''prompts/system_prompt.md'' = Some ''Take at most {allowance} steps.'' \<and>
   (\<exists>a p'. factory example_framework 7 example_process = (None, p') \<and>
      user_session p' (7, ''agent'') = Some a \<and>
      system_prompt a = Some (replace ''{allowance}'' ''5'' ''Take at most {allowance} steps.'')) \<and>
   (\<exists>a p'. create_agent example_framework False None example_process = (Inr a, p') \<and>
      system_prompt a = Some (replace ''{allowance}'' ''5'' ''Take at most {allowance} steps.'') \<and>
      main_block example_framework example_process = repl_until_interrupt example_framework a p')"
proof -
  have f: "files example_process ''prompts/system_prompt.md'' = Some ''Take at most {allowance} steps.''"
    by (simp add: example_process_def fresh_files_def)
  from front_ends_substitute_5[OF f, of example_framework 7] f show ?thesis by blast
qed

section \<open>The tools and the limit of iterations\<close>

text \<open>
  C3. The choice-suggestion tool is registered with the direct-return flag set; the dice
  tool and the skill tool are registered without it, so their flag is off. Once the agent
  invokes the choice-suggestion tool, at whatever step of a turn, the output of the tool is
  the answer of the turn, unmodified, and the call is the last step of the turn: no further
  reasoning follows it. A call of the dice tool or of the skill tool is followed by the
  next step. Through the web handler, the output of the choice-suggestion tool is what is
  sent to the user.
\<close>

theorem choice_tool_returns_direct:
  assumes "fst (create_agent fw b n p) = Inr a"
  shows "tools a = [from_defaults suggest_choices (Some True),
                    from_defaults roll_a_dice None,
                    from_defaults roll_a_skill None] \<and>
         map (\<lambda>t. (fn t, return_direct t)) (tools a)
           = [(suggest_choices, True), (roll_a_dice, False), (roll_a_skill, False)] \<and>
         (llm h obs = Inr (ToolCall suggest_choices x) \<longrightarrow>
            react_loop llm ct a h obs (Suc k)
              = (Inr (ct suggest_choices x), [ToolCall suggest_choices x])) \<and>
         (f \<noteq> suggest_choices \<and> llm h obs = Inr (ToolCall f x) \<longrightarrow>
            react_loop llm ct a h obs (Suc k)
              = (case react_loop llm ct a h (obs @ [ct f x]) k of
                   (r, steps) \<Rightarrow> (r, ToolCall f x # steps))) \<and>
         (ToolCall suggest_choices x \<in> set (snd (react_loop llm ct a h obs k)) \<longrightarrow>
            fst (react_loop llm ct a h obs k) = Inr (ct suggest_choices x) \<and>
            (\<exists>pre. snd (react_loop llm ct a h obs k) = pre @ [ToolCall suggest_choices x] \<and>
                   (\<forall>y. ToolCall suggest_choices y \<notin> set pre))) \<and>
         (user_session q (sid, ''agent'') = Some a \<and> 0 < default_max_iterations fw \<and>
          llm (get_all (put q (memory a) (USER, content)) (memory a)) []
            = Inr (ToolCall suggest_choices x) \<longrightarrow>
            fst (main (with_react_loop fw llm ct) sid content q) = None \<and>
            sent (snd (main (with_react_loop fw llm ct) sid content q))
              = sent q @ [(sid, ct suggest_choices x)])"
proof -
  have t: "tools a = three_tools" using assms by (rule create_agent_three_tools)
  have m: "max_iterations a = default_max_iterations fw" using assms by (rule max_iterations_default)
  show ?thesis
  proof (intro conjI impI)
    show "tools a = [from_defaults suggest_choices (Some True), from_defaults roll_a_dice None,
                    from_defaults roll_a_skill None]"
      using t by (simp add: three_tools_def)
    show "map (\<lambda>t. (fn t, return_direct t)) (tools a)
           = [(suggest_choices, True), (roll_a_dice, False), (roll_a_skill, False)]"
      using t by (simp add: three_tools_def from_defaults_def)
  next
    assume "llm h obs = Inr (ToolCall suggest_choices x)"
    then show "react_loop llm ct a h obs (Suc k)
              = (Inr (ct suggest_choices x), [ToolCall suggest_choices x])"
      using t react_loop_direct_step[of a llm h obs x ct k] by simp
  next
    assume "f \<noteq> suggest_choices \<and> llm h obs = Inr (ToolCall f x)"
    then show "react_loop llm ct a h obs (Suc k)
              = (case react_loop llm ct a h (obs @ [ct f x]) k of
                   (r, steps) \<Rightarrow> (r, ToolCall f x # steps))"
      using t react_loop_other_step[of a f llm h obs x ct k] by simp
  next
    assume "ToolCall suggest_choices x \<in> set (snd (react_loop llm ct a h obs k))"
    then show "fst (react_loop llm ct a h obs k) = Inr (ct suggest_choices x)"
      and "\<exists>pre. snd (react_loop llm ct a h obs k) = pre @ [ToolCall suggest_choices x] \<and>
                   (\<forall>y. ToolCall suggest_choices y \<notin> set pre)"
      using react_loop_direct_last[OF t] by blast+
  next
    assume h: "user_session q (sid, ''agent'') = Some a \<and> 0 < default_max_iterations fw \<and>
          llm (get_all (put q (memory a) (USER, content)) (memory a)) []
            = Inr (ToolCall suggest_choices x)"
    with m have "0 < max_iterations a" by simp
    from main_react_direct[OF t this, of q sid llm content x fw ct] h
    show "fst (main (with_react_loop fw llm ct) sid content q) = None"
      and "sent (snd (main (with_react_loop fw llm ct) sid content q))
              = sent q @ [(sid, ct suggest_choices x)]"
      by simp_all
  qed
qed

theorem choice_tool_returns_direct_witness:
  "\<exists>a q.
     fst (create_agent example_framework True None example_process) = Inr a \<and>
     map (\<lambda>t. (fn t, return_direct t)) (tools a)
       = [(suggest_choices, True), (roll_a_dice, False), (roll_a_skill, False)] \<and>
     example_llm [] [''4''] = Inr (ToolCall suggest_choices ''what next'') \<and>
     react_loop example_llm example_call_tool a [] [''4''] (Suc 0)
       = (Inr ''Fight or flee?'', [ToolCall suggest_choices ''what next'']) \<and>
     roll_a_dice \<noteq> suggest_choices \<and>
     example_llm [] [] = Inr (ToolCall roll_a_dice ''d6'') \<and>
     react_loop example_llm example_call_tool a [] [] (Suc (Suc 0))
       = (Inr ''Fight or flee?'', [ToolCall roll_a_dice ''d6'', ToolCall suggest_choices ''what next'']) \<and>
     ToolCall suggest_choices ''what next''
       \<in> set (snd (react_loop example_llm example_call_tool a [] [] (Suc (Suc 0)))) \<and>
     fst (react_loop example_llm example_call_tool a [] [] (Suc (Suc 0))) = Inr ''Fight or flee?'' \<and>
     factory example_framework 1 example_process = (None, q) \<and>
     user_session q (1, ''agent'') = Some a \<and>
     0 < default_max_iterations example_framework \<and>
     sent (snd (main (with_react_loop example_framework
                        (\<lambda>h obs. Inr (ToolCall suggest_choices ''what next'')) example_call_tool)
                  1 ''hi'' q))
       = [(1, ''Fight or flee?'')]"
proof -
  obtain a p' where c: "create_agent example_framework True None example_process = (Inr a, p')"
    and s: "sent p' = []"
    by (simp add: create_agent_unfold example_process_def fresh_files_def Let_def)
  define q where "q = p'\<lparr>user_session := (user_session p')((1, ''agent'') \<mapsto> a)\<rparr>"
  have a: "fst (create_agent example_framework True None example_process) = Inr a"
    using c by simp
  have fq: "factory example_framework 1 example_process = (None, q)"
    using c by (simp add: factory_def q_def)
  have u: "user_session q (1, ''agent'') = Some a" by (simp add: q_def)
  have sq: "sent q = []" using s by (simp add: q_def)
  have d: "0 < default_max_iterations example_framework" by (simp add: example_framework_def)
  have l1: "example_llm [] [''4''] = Inr (ToolCall suggest_choices ''what next'')"
    by (simp add: example_llm_def)
  have l2: "example_llm [] [] = Inr (ToolCall roll_a_dice ''d6'')"
    by (simp add: example_llm_def)
  have ne: "roll_a_dice \<noteq> suggest_choices" by simp
  note A = choice_tool_returns_direct[OF a, where llm = example_llm and h = "[]"
             and obs = "[''4'']" and x = "''what next''" and ct = example_call_tool and k = 0
             and f = roll_a_dice and q = q and sid = 1 and content = "''hi''"]
  note C = choice_tool_returns_direct[OF a, where llm = example_llm and h = "[]"
             and obs = "[]" and x = "''d6''" and ct = example_call_tool and k = "Suc 0"
             and f = roll_a_dice and q = q and sid = 1 and content = "''hi''"]
  note B = choice_tool_returns_direct[OF a, where llm = example_llm and h = "[]"
             and obs = "[]" and x = "''what next''" and ct = example_call_tool and k = "Suc (Suc 0)"
             and f = roll_a_dice and q = q and sid = 1 and content = "''hi''"]
  note D = choice_tool_returns_direct[OF a,
             where llm = "\<lambda>h obs. Inr (ToolCall suggest_choices ''what next'')" and h = "[]"
             and obs = "[]" and x = "''what next''" and ct = example_call_tool and k = 0
             and f = roll_a_dice and q = q and sid = 1 and content = "''hi''"]
  have flags: "map (\<lambda>t. (fn t, return_direct t)) (tools a)
       = [(suggest_choices, True), (roll_a_dice, False), (roll_a_skill, False)]"
    using A by (simp add: from_defaults_def)
  have r1: "react_loop example_llm example_call_tool a [] [''4''] (Suc 0)
       = (Inr ''Fight or flee?'', [ToolCall suggest_choices ''what next''])"
    using A l1 by (simp add: example_call_tool_def)
  have r2: "react_loop example_llm example_call_tool a [] [] (Suc (Suc 0))
       = (Inr ''Fight or flee?'', [ToolCall roll_a_dice ''d6'', ToolCall suggest_choices ''what next''])"
    using C l2 ne r1 by (simp add: example_call_tool_def)
  have mem: "ToolCall suggest_choices ''what next''
       \<in> set (snd (react_loop example_llm example_call_tool a [] [] (Suc (Suc 0))))"
    using r2 by simp
  have r3: "fst (react_loop example_llm example_call_tool a [] [] (Suc (Suc 0))) = Inr ''Fight or flee?''"
    using B mem by (simp add: example_call_tool_def)
  have e: "sent (snd (main (with_react_loop example_framework
                        (\<lambda>h obs. Inr (ToolCall suggest_choices ''what next'')) example_call_tool)
                  1 ''hi'' q)) = [(1, ''Fight or flee?'')]"
    using D u d sq by (simp add: example_call_tool_def)
  from a flags l1 r1 ne l2 r2 mem r3 fq u d e show ?thesis
    by (intro exI[of _ a] exI[of _ q]) simp
qed

text \<open>
  C5, evaluated on the code. The property is that the limit of iterations of a constructed
  agent is computed from \<^verbatim>\<open>max_action_steps\<close>; the comments in the call of \<^verbatim>\<open>from_tools\<close> give the
  formula (twice the steps, plus one). The call passes no limit: with \<^verbatim>\<open>max_action_steps\<close> 1
  and with 20 the agent has the framework's default, here 10, where the formula gives 3
  and 41.
\<close>

theorem iteration_limit_ignores_max_action_steps:
  "map_sum id max_iterations (fst (create_agent example_framework False (Some 1) example_process))
     = Inr (default_max_iterations example_framework) \<and>
   map_sum id max_iterations (fst (create_agent example_framework False (Some 20) example_process))
     = Inr (default_max_iterations example_framework) \<and>
   default_max_iterations example_framework = 10"
  by (simp add: create_agent_unfold example_process_def example_framework_def fresh_files_def Let_def)

text \<open>
  C7. The tool set of every agent is fixed at construction to exactly three callables, the
  choice-suggestion helper, the dice roller and the skill roller, in this order; it is not
  changed during a session: in every state that a run of web events reaches from module
  initialisation, the agent of every session has these three tools, and a message or a
  session end leaves the agent of every session as it is.
\<close>

theorem tool_set_fixed:
  "(fst (create_agent fw b n p) = Inr a \<longrightarrow>
      map fn (tools a) = [suggest_choices, roll_a_dice, roll_a_skill]) \<and>
   (module_init fw fs = Inr p0 \<and> user_session (web_run fw p0 evs) (sid, ''agent'') = Some a' \<longrightarrow>
      map fn (tools a') = [suggest_choices, roll_a_dice, roll_a_skill]) \<and>
   (user_session q (sid, ''agent'') = Some a'' \<longrightarrow>
      user_session (web_step fw q (Message sid' content)) (sid, ''agent'') = Some a'' \<and>
      user_session (web_step fw q (ChatEnd sid')) (sid, ''agent'') = Some a'')"
proof (intro conjI impI)
  assume "fst (create_agent fw b n p) = Inr a"
  then show "map fn (tools a) = [suggest_choices, roll_a_dice, roll_a_skill]"
    using create_agent_tools[of fw b n p a "snd (create_agent fw b n p)"]
    by (simp add: from_defaults_def prod_eq_iff)
next
  assume h: "module_init fw fs = Inr p0 \<and> user_session (web_run fw p0 evs) (sid, ''agent'') = Some a'"
  then have "user_session p0 = Map.empty"
    by (auto simp: module_init_def split: sum.splits)
  then have "\<And>sid a. user_session p0 (sid, ''agent'') = Some a \<Longrightarrow>
      tools a = [from_defaults suggest_choices (Some True), from_defaults roll_a_dice None,
              from_defaults roll_a_skill None]" by simp
  from web_run_tools[OF this _ conjunct2[OF h]]
  show "map fn (tools a') = [suggest_choices, roll_a_dice, roll_a_skill]"
    by (simp add: from_defaults_def)
next
  assume "user_session q (sid, ''agent'') = Some a''"
  then show "user_session (web_step fw q (Message sid' content)) (sid, ''agent'') = Some a''"
    by (simp add: main_def achat_def put_def Let_def split: option.splits prod.splits sum.splits)
next
  assume "user_session q (sid, ''agent'') = Some a''"
  then show "user_session (web_step fw q (ChatEnd sid')) (sid, ''agent'') = Some a''"
    by (simp add: cleanup_def persist_def Let_def)
qed

theorem tool_set_fixed_witness:
  "\<exists>a p0 a'.
     fst (create_agent example_framework False None example_process) = Inr a \<and>
     map fn (tools a) = [suggest_choices, roll_a_dice, roll_a_skill] \<and>
     module_init example_framework fresh_files = Inr p0 \<and>
     user_session (web_run example_framework p0 [ChatStart 1, Message 1 ''roll a d6'', ChatEnd 1])
        (1, ''agent'') = Some a' \<and>
     map fn (tools a') = [suggest_choices, roll_a_dice, roll_a_skill] \<and>
     user_session (web_step example_framework
        (web_run example_framework p0 [ChatStart 1, Message 1 ''roll a d6'', ChatEnd 1])
        (Message 2 ''hello'')) (1, ''agent'') = Some a' \<and>
     user_session (web_step example_framework
        (web_run example_framework p0 [ChatStart 1, Message 1 ''roll a d6'', ChatEnd 1])
        (ChatEnd 2)) (1, ''agent'') = Some a'"
proof -
  obtain a where a: "fst (create_agent example_framework False None example_process) = Inr a"
    by (simp add: create_agent_unfold example_process_def fresh_files_def Let_def)
  obtain p0 where p0: "module_init example_framework fresh_files = Inr p0"
    and "\<exists>l. p0 = example_process\<lparr>log := l\<rparr>"
    using module_init_example by blast
  then obtain a' where a': "user_session (web_run example_framework p0
        [ChatStart 1, Message 1 ''roll a d6'', ChatEnd 1]) (1, ''agent'') = Some a'"
    using example_session by blast
  from a p0 a'
    tool_set_fixed[of example_framework False None example_process a fresh_files p0
      "[ChatStart 1, Message 1 ''roll a d6'', ChatEnd 1]" 1 a'
      "web_run example_framework p0 [ChatStart 1, Message 1 ''roll a d6'', ChatEnd 1]" a' 2 "''hello''"]
  show ?thesis
    by (intro exI[of _ a] exI[of _ p0] exI[of _ a']) simp
qed

section \<open>The callback manager\<close>

text \<open>
  C10. Every call of \<^verbatim>\<open>create_agent\<close>, also one that raises, overwrites the process-wide slot
  \<^verbatim>\<open>Settings.callback_manager\<close> with a manager built in that call; the new manager holds the
  chainlit handler exactly when \<^verbatim>\<open>should_use_chainlit\<close> is true and always holds the debug and
  the trace handler. A second call replaces the manager that the first one installed, so
  constructing an agent changes callback state that the agents constructed before share.
\<close>

theorem create_agent_overwrites_callback_manager:
  "Settings_callback_manager (snd (create_agent fw b n p))
     = Some \<lparr>cm_id = next_addr p,
             handlers = [LlamaDebugHandler ''debug'', OpenInferenceTraceCallbackHandler]
                        @ (if b then [LlamaIndexCallbackHandler] else [])\<rparr> \<and>
   (\<exists>cm. Settings_callback_manager (snd (create_agent fw b n p)) = Some cm \<and>
         (LlamaIndexCallbackHandler \<in> set (handlers cm)) = b \<and>
         LlamaDebugHandler ''debug'' \<in> set (handlers cm) \<and>
         OpenInferenceTraceCallbackHandler \<in> set (handlers cm)) \<and>
   Settings_callback_manager (snd (create_agent fw b' n' (snd (create_agent fw b n p))))
     \<noteq> Settings_callback_manager (snd (create_agent fw b n p))"
  by (simp add: create_agent_unfold Let_def split: option.splits)

section \<open>Persistence at the end of a run\<close>



text \<open>
  C8. In the terminal entry point, once the agent is constructed, the chat store is
  persisted if and only if the loop raises KeyboardInterrupt: then the file
  \<^verbatim>\<open>chat_store.json\<close> is replaced by the serialised chat store as the loop left it, the
  warning is logged, the write is the only one, and nothing else of the process changes;
  when the loop returns or raises another exception, nothing is written, the process is
  left as the loop left it, and the other exception propagates.
\<close>

theorem terminal_persists_iff_interrupt:
  assumes "create_agent fw False None p = (Inr a, p1)" and "chat_repl fw a p1 = (out, p2)"
  shows "writes (snd (main_block fw p))
           = writes p2 @ (if out = Raised KeyboardInterrupt then [''chat_store.json''] else []) \<and>
         (writes (snd (main_block fw p)) = writes p2 @ [''chat_store.json''])
           = (out = Raised KeyboardInterrupt) \<and>
         (out = Raised KeyboardInterrupt \<longrightarrow>
            fst (main_block fw p) = None \<and>
            files (snd (main_block fw p))
              = (files p2)(''chat_store.json'' \<mapsto> to_json fw (store_of p2)) \<and>
            snd (main_block fw p)
              = p2\<lparr>files := (files p2)(''chat_store.json'' \<mapsto> to_json fw (store_of p2)),
                   writes := writes p2 @ [''chat_store.json''],
                   log := log p2 @ [(WARNING, ''Interrupted. Persisting chat storage.'')]\<rparr>) \<and>
         (out \<noteq> Raised KeyboardInterrupt \<longrightarrow>
            snd (main_block fw p) = p2 \<and>
            fst (main_block fw p) = (case out of Returned \<Rightarrow> None | Raised e \<Rightarrow> Some e))"
proof (cases out)
  case Returned
  with assms show ?thesis
    by (simp add: main_block_def repl_until_interrupt_def)
next
  case (Raised e)
  with assms show ?thesis
    by (cases e)
       (simp_all add: main_block_def repl_until_interrupt_def persist_def store_of_def Let_def)
qed

theorem terminal_persists_witness:
  "\<exists>a p1.
     create_agent (example_framework\<lparr>chat_repl := (\<lambda>a p. (Returned, p))\<rparr>) False None example_process
       = (Inr a, p1) \<and>
     chat_repl (example_framework\<lparr>chat_repl := (\<lambda>a p. (Returned, p))\<rparr>) a p1 = (Returned, p1) \<and>
     Returned \<noteq> Raised KeyboardInterrupt \<and>
     main_block (example_framework\<lparr>chat_repl := (\<lambda>a p. (Returned, p))\<rparr>) example_process = (None, p1) \<and>
     writes p1 = [] \<and> files p1 ''chat_store.json'' = None \<and>
     create_agent example_framework False None example_process = (Inr a, p1) \<and>
     chat_repl example_framework a p1
       = (Raised KeyboardInterrupt, put p1 (memory a) (USER, ''roll a d6'')) \<and>
     writes (snd (main_block example_framework example_process)) = [''chat_store.json''] \<and>
     files (snd (main_block example_framework example_process)) ''chat_store.json''
       = Some ''roll a d6''"
proof -
  let ?fw = "example_framework\<lparr>chat_repl := (\<lambda>a p. (Returned, p))\<rparr>"
  obtain a p1 where c: "create_agent ?fw False None example_process = (Inr a, p1)"
    and w: "writes p1 = []" and f: "files p1 ''chat_store.json'' = None"
    and m: "memory a = 1" and st: "stores p1 = (\<lambda>_. Map.empty)"
    and ms: "memories p1 1 = \<lparr>chat_store_ref = 0, chat_store_key = ''user1''\<rparr>"
    and cs: "chat_store p1 = 0"
    by (simp add: create_agent_unfold example_process_def fresh_files_def Let_def)
  then have c': "create_agent example_framework False None example_process = (Inr a, p1)"
    by (simp add: create_agent_unfold example_framework_def Let_def split: option.splits)
  have r: "chat_repl ?fw a p1 = (Returned, p1)" by simp
  have r': "chat_repl example_framework a p1
       = (Raised KeyboardInterrupt, put p1 (memory a) (USER, ''roll a d6''))"
    by (simp add: example_framework_def)
  have w': "writes (put p1 (memory a) (USER, ''roll a d6'')) = []"
    using w by (simp add: put_def Let_def)
  have j: "to_json example_framework (store_of (put p1 (memory a) (USER, ''roll a d6''))) = ''roll a d6''"
    using m st ms cs by (simp add: example_framework_def store_of_def put_def Let_def)
  from terminal_persists_iff_interrupt[OF c r] terminal_persists_iff_interrupt[OF c' r'] c c' r r' w w' f j
  show ?thesis
    by (intro exI[of _ a] exI[of _ p1]) (simp add: prod_eq_iff)
qed

section \<open>Sessions and the shared memory\<close>

text \<open>
  C4, as stated, fails on the code. The property is that no conversation state written by the
  chat operation of one web session is readable by the agent of another. After two sessions
  have started, the agent of session 2 reads an empty history; after one message in
  session 1, it reads the two turns of that chat.
\<close>

theorem sessions_share_memory_counterexample:
  "session_history two_sessions 2 = Some [] \<and>
   session_history (web_step example_framework two_sessions (Message 1 ''hi'')) 2
     = Some [(USER, ''hi''), (ASSISTANT, ''You rolled a 4.'')]"
  by (simp add: session_history_def two_sessions_def web_run_def factory_def main_def achat_def
        put_def get_all_def create_agent_unfold example_process_def example_framework_def
        fresh_files_def Let_def)

text \<open>
  C4, amended. Two web sessions that start one after the other hold two different agent
  objects, and both agents are bound to the one module-level memory buffer \<^verbatim>\<open>chat_memory\<close>:
  a message put through the memory of the first agent is read through the memory of the
  second, and the turns that a chat of the first agent records are appended to the history
  that the second agent reads.
\<close>

theorem sessions_share_one_memory:
  assumes "factory fw s1 p = (None, p1)" and "factory fw s2 p1 = (None, p2)" and "s1 \<noteq> s2"
  shows "\<exists>a1 a2. user_session p2 (s1, ''agent'') = Some a1 \<and>
           user_session p2 (s2, ''agent'') = Some a2 \<and>
           agent_id a1 \<noteq> agent_id a2 \<and>
           memory a1 = chat_memory p \<and> memory a2 = chat_memory p \<and>
           (\<forall>q msg. get_all (put q (memory a1) msg) (memory a2) = get_all q (memory a2) @ [msg]) \<and>
           (\<forall>q c r q'. achat fw a1 c q = (Inr r, q') \<longrightarrow>
              get_all q' (memory a2) = get_all q (memory a2) @ [(USER, c), (ASSISTANT, r)])"
proof -
  from assms(1) obtain t where t: "files p ''prompts/system_prompt.md'' = Some t"
    by (cases "files p ''prompts/system_prompt.md''")
       (auto simp: factory_def create_agent_unfold Let_def)
  with assms(1) obtain a1 where a1: "user_session p1 (s1, ''agent'') = Some a1"
      "agent_id a1 = Suc (next_addr p)" "memory a1 = chat_memory p"
      and p1: "next_addr p1 = Suc (Suc (next_addr p))" "chat_memory p1 = chat_memory p"
        "files p1 = files p"
    by (auto simp: factory_def create_agent_unfold Let_def)
  from assms(2) t p1 obtain a2 where a2: "user_session p2 (s2, ''agent'') = Some a2"
      "agent_id a2 = Suc (next_addr p1)" "memory a2 = chat_memory p1"
      and p2: "user_session p2 (s1, ''agent'') = user_session p1 (s1, ''agent'')"
    using assms(3) by (auto simp: factory_def create_agent_unfold Let_def)
  have m: "memory a2 = memory a1" using a1 a2 p1 by simp
  have "\<forall>q msg. get_all (put q (memory a1) msg) (memory a2) = get_all q (memory a2) @ [msg]"
    using m by (simp add: get_all_put)
  moreover have "\<forall>q c r q'. achat fw a1 c q = (Inr r, q') \<longrightarrow>
              get_all q' (memory a2) = get_all q (memory a2) @ [(USER, c), (ASSISTANT, r)]"
    using m get_all_achat by blast
  ultimately show ?thesis using a1 a2 p1 p2 by simp
qed

theorem sessions_share_one_memory_witness:
  "\<exists>p1 p2 a1 a2.
     factory example_framework 1 example_process = (None, p1) \<and>
     factory example_framework 2 p1 = (None, p2) \<and> (1::nat) \<noteq> 2 \<and>
     user_session p2 (1, ''agent'') = Some a1 \<and> user_session p2 (2, ''agent'') = Some a2 \<and>
     agent_id a1 \<noteq> agent_id a2 \<and> memory a1 = 1 \<and> memory a2 = 1 \<and>
     get_all (put p2 (memory a1) (USER, ''hi'')) (memory a2) = get_all p2 (memory a2) @ [(USER, ''hi'')] \<and>
     (\<exists>q'. achat example_framework a1 ''hi'' p2 = (Inr ''You rolled a 4.'', q') \<and>
        get_all q' (memory a2) = get_all p2 (memory a2) @ [(USER, ''hi''), (ASSISTANT, ''You rolled a 4.'')])"
proof -
  have f: "files example_process ''prompts/system_prompt.md'' = Some ''Take at most {allowance} steps.''"
    by (simp add: example_process_def fresh_files_def)
  from factory_example[OF f] obtain p1 where p1: "factory example_framework 1 example_process = (None, p1)"
    and f1: "files p1 = files example_process" by blast
  from factory_example[of p1, OF f[folded f1]] obtain p2 where p2: "factory example_framework 2 p1 = (None, p2)"
    by blast
  have ne: "(1::nat) \<noteq> 2" by simp
  from sessions_share_one_memory[OF p1 p2 ne] obtain a1 a2 where
    "user_session p2 (1, ''agent'') = Some a1" "user_session p2 (2, ''agent'') = Some a2"
    "agent_id a1 \<noteq> agent_id a2" "memory a1 = chat_memory example_process"
    "memory a2 = chat_memory example_process"
    "\<forall>q msg. get_all (put q (memory a1) msg) (memory a2) = get_all q (memory a2) @ [msg]"
    "\<forall>q c r q'. achat example_framework a1 c q = (Inr r, q') \<longrightarrow>
       get_all q' (memory a2) = get_all q (memory a2) @ [(USER, c), (ASSISTANT, r)]"
    by blast
  moreover obtain q' where "achat example_framework a1 ''hi'' p2 = (Inr ''You rolled a 4.'', q')"
    by (simp add: achat_def example_framework_def Let_def)
  ultimately show ?thesis using p1 p2
    by (intro exI[of _ p1] exI[of _ p2] exI[of _ a1] exI[of _ a2])
       (auto simp: example_process_def)
qed

end
